theory Spec2Isabelle
  imports Complex_Main
begin

section \<open>Data model of the dual-view flow editor (src/src/App.tsx)\<close>

text \<open>
  The source file holds two variants of the same application, one after the other.
  Definitions that differ between them carry the suffix \<open>_v1\<close> (first variant) or
  \<open>_v2\<close> (second variant); the store operations \<open>updateNodePosition\<close>,
  \<open>deleteNode\<close> and \<open>edgesWithPositions\<close> are textually identical in both.

  Numbers of the source are JavaScript numbers; they are modelled as \<open>real\<close>, that is,
  with exact arithmetic (no rounding, no NaN, no signed zero).

  The record fields are prefixed where the source's one-letter or generic names
  (\<open>x\<close>, \<open>y\<close>, \<open>id\<close>, \<open>type\<close>) would clash with variables and constants.
\<close>

record position =
  px :: real
  py :: real

text \<open>A node of the store: \<open>{ id, data: { label }, position, type }\<close>.\<close>

record node =
  node_id :: string
  label :: string
  node_position :: position
  node_type :: string

text \<open>
  An edge of the store: \<open>{ id, source, target }\<close>; the handles are absent
  (\<open>None\<close>) on the seed edges and \<open>null\<close> or a string on a connection. The
  presentational fields (\<open>type\<close>, \<open>style\<close>, \<open>markerEnd\<close>) are left out.
\<close>

record edge =
  edge_id :: string
  source :: string
  target :: string
  sourceHandle :: "string option"
  targetHandle :: "string option"

text \<open>
  The state of \<open>DualViewFlow\<close>: the three \<open>useState\<close> cells \<open>nodes\<close>,
  \<open>edges\<close> and \<open>selectedNode\<close> (\<open>string | null\<close>).
\<close>

record flow_state =
  nodes :: "node list"
  edges :: "edge list"
  selectedNode :: "string option"

definition initialNodes :: "node list" where
  "initialNodes =
     [\<lparr>node_id = ''1'', label = ''Node 1'',
        node_position = \<lparr>px = 0, py = 0\<rparr>, node_type = ''custom''\<rparr>,
      \<lparr>node_id = ''2'', label = ''Node 2'',
        node_position = \<lparr>px = 200, py = 100\<rparr>, node_type = ''custom''\<rparr>,
      \<lparr>node_id = ''3'', label = ''Node 3'',
        node_position = \<lparr>px = - 100, py = 100\<rparr>, node_type = ''custom''\<rparr>]"

definition initialEdges :: "edge list" where
  "initialEdges =
     [\<lparr>edge_id = ''e1-2'', source = ''1'', target = ''2'',
        sourceHandle = None, targetHandle = None\<rparr>,
      \<lparr>edge_id = ''e1-3'', source = ''1'', target = ''3'',
        sourceHandle = None, targetHandle = None\<rparr>]"

definition initialState :: flow_state where
  "initialState = \<lparr>nodes = initialNodes, edges = initialEdges, selectedNode = None\<rparr>"

section \<open>Store operations\<close>


text \<open>
  \<open>updateNodePosition(id, newPos)\<close>: \<open>setNodes(nds => nds.map(node => node.id === id
  ? { ...node, position: { x: newPos.x, y: newPos.y } } : node))\<close>.
\<close>

definition updateNodePosition :: "string \<Rightarrow> position \<Rightarrow> flow_state \<Rightarrow> flow_state" where
  "updateNodePosition i newPos s =
     s\<lparr>nodes :=
         map (\<lambda>n. if node_id n = i
                  then n\<lparr>node_position := \<lparr>px = px newPos, py = py newPos\<rparr>\<rparr>
                  else n)
             (nodes s)\<rparr>"

text \<open>
  \<open>deleteNode(id)\<close>: filters the nodes, filters the edges, and resets the selection
  when the deleted id is the selected one; the three setters run in one callback. The
  two filters are functional updates and run on the current nodes and edges. The
  comparison \<open>selectedNode === id\<close> reads the \<open>selectedNode\<close> that the callback
  closed over (\<open>useCallback\<close> with \<open>selectedNode\<close> among its dependencies): the
  selection of the render that created the callback, here \<open>captured\<close>. Once the
  component has rendered the state \<open>s\<close>, \<open>captured\<close> is \<open>selectedNode s\<close>.
\<close>

definition deleteNode :: "string option \<Rightarrow> string \<Rightarrow> flow_state \<Rightarrow> flow_state" where
  "deleteNode captured i s =
     \<lparr>nodes = filter (\<lambda>n. node_id n \<noteq> i) (nodes s),
      edges = filter (\<lambda>e. source e \<noteq> i \<and> target e \<noteq> i) (edges s),
      selectedNode = (if captured = Some i then None else selectedNode s)\<rparr>"



text \<open>The ids of the nodes in the store, in order.\<close>

definition nodeIds :: "flow_state \<Rightarrow> string list" where
  "nodeIds s = map node_id (nodes s)"


section \<open>Connecting: \<open>onConnect\<close> (second variant only)\<close>

text \<open>The connection a connect gesture supplies: \<open>{ source, target, sourceHandle, targetHandle }\<close>.\<close>

record connection =
  conn_source :: string
  conn_target :: string
  conn_sourceHandle :: "string option"
  conn_targetHandle :: "string option"

text \<open>
  \<open>onConnect = (connection) => setEdges((eds) => addEdge(connection, eds))\<close>.
  \<open>addEdge\<close> is imported from the diagramming library \<open>@xyflow/react\<close>; its code is
  not part of this repository, so the handler takes it as the parameter \<open>addE\<close>.
\<close>

definition onConnect ::
  "(connection \<Rightarrow> edge list \<Rightarrow> edge list) \<Rightarrow> connection \<Rightarrow> flow_state \<Rightarrow> flow_state" where
  "onConnect addE c s = s\<lparr>edges := addE c (edges s)\<rparr>"

text \<open>
  The library's \<open>addEdge\<close>, after the published source of \<open>@xyflow/system\<close>
  (\<open>utils/edges/general.ts\<close>): a connection with an empty source or target is dropped
  with a development warning; otherwise the edge gets the id
  \<open>xy-edge__${source}${sourceHandle || ''}-${target}${targetHandle || ''}\<close> and is
  appended unless \<open>connectionExists\<close>. A handle that is \<open>null\<close> or \<open>undefined\<close>
  is \<open>None\<close>.
\<close>

definition falsyHandle :: "string option \<Rightarrow> bool" where
  "falsyHandle h = (h = None \<or> h = Some [])"

definition handleOrEmpty :: "string option \<Rightarrow> string" where
  "handleOrEmpty h = (case h of None \<Rightarrow> [] | Some t \<Rightarrow> t)"

definition getEdgeId :: "connection \<Rightarrow> string" where
  "getEdgeId c =
     ''xy-edge__'' @ conn_source c @ handleOrEmpty (conn_sourceHandle c) @ ''-'' @
     conn_target c @ handleOrEmpty (conn_targetHandle c)"

definition connectionExists :: "edge \<Rightarrow> edge list \<Rightarrow> bool" where
  "connectionExists e es =
     list_ex (\<lambda>el. source el = source e \<and> target el = target e \<and>
                  (sourceHandle el = sourceHandle e \<or>
                   falsyHandle (sourceHandle el) \<and> falsyHandle (sourceHandle e)) \<and>
                  (targetHandle el = targetHandle e \<or>
                   falsyHandle (targetHandle el) \<and> falsyHandle (targetHandle e))) es"

definition edgeOfConnection :: "connection \<Rightarrow> edge" where
  "edgeOfConnection c =
     \<lparr>edge_id = getEdgeId c, source = conn_source c, target = conn_target c,
      sourceHandle = conn_sourceHandle c, targetHandle = conn_targetHandle c\<rparr>"

definition addEdge :: "connection \<Rightarrow> edge list \<Rightarrow> edge list" where
  "addEdge c es =
     (if conn_source c = [] \<or> conn_target c = [] then es
      else if connectionExists (edgeOfConnection c) es then es
      else es @ [edgeOfConnection c])"

section \<open>Scene vectors (\<open>THREE.Vector3\<close>)\<close>

record vec3 =
  vx :: real
  vy :: real
  vz :: real

definition subVectors :: "vec3 \<Rightarrow> vec3 \<Rightarrow> vec3" where
  "subVectors a b = \<lparr>vx = vx a - vx b, vy = vy a - vy b, vz = vz a - vz b\<rparr>"

definition vec_length :: "vec3 \<Rightarrow> real" where
  "vec_length v = sqrt (vx v * vx v + vy v * vy v + vz v * vz v)"

definition multiplyScalar :: "vec3 \<Rightarrow> real \<Rightarrow> vec3" where
  "multiplyScalar v k = \<lparr>vx = vx v * k, vy = vy v * k, vz = vz v * k\<rparr>"

definition divideScalar :: "vec3 \<Rightarrow> real \<Rightarrow> vec3" where
  "divideScalar v k = multiplyScalar v (1 / k)"

text \<open>\<open>normalize()\<close> is \<open>this.divideScalar(this.length() || 1)\<close>: a zero length is replaced by 1.\<close>

definition normalizeDivisor :: "vec3 \<Rightarrow> real" where
  "normalizeDivisor v = (if vec_length v = 0 then 1 else vec_length v)"

definition normalize :: "vec3 \<Rightarrow> vec3" where
  "normalize v = divideScalar v (normalizeDivisor v)"

definition distanceTo :: "vec3 \<Rightarrow> vec3 \<Rightarrow> real" where
  "distanceTo a b = vec_length (subVectors a b)"

text \<open>The length of a polyline: the sum of the lengths of its segments.\<close>

fun polylineLength :: "vec3 list \<Rightarrow> real" where
  "polylineLength (p # q # ps) = distanceTo p q + polylineLength (q # ps)"
| "polylineLength _ = 0"

text \<open>
  \<open>Math.atan2(y, x)\<close> on the reals: the angle in \<open>(-\<pi>, \<pi>]\<close> of the point \<open>(x, y)\<close>,
  and 0 at the origin.
\<close>

definition atan2 :: "real \<Rightarrow> real \<Rightarrow> real" where
  "atan2 y x =
     (if 0 < x then arctan (y / x)
      else if x < 0 then (if 0 \<le> y then arctan (y / x) + pi else arctan (y / x) - pi)
      else if 0 < y then pi / 2
      else if y < 0 then - (pi / 2)
      else 0)"

section \<open>Coordinate mapping in \<open>Node3D\<close>\<close>

text \<open>
  First variant. The effect of \<open>Node3D\<close> places the group at
  \<open>(position.x / 50, -position.y / 50, 0.005)\<close>; \<open>handleTransformChange\<close> reads the
  translation of the drag matrix and calls
  \<open>updateNodePosition(id, { x: position.x * 50, y: -position.y * 50 })\<close>.
\<close>

definition Node3D_position_v1 :: "position \<Rightarrow> vec3" where
  "Node3D_position_v1 p = \<lparr>vx = px p / 50, vy = - py p / 50, vz = 0.005\<rparr>"

definition newPos_v1 :: "vec3 \<Rightarrow> position" where
  "newPos_v1 m = \<lparr>px = vx m * 50, py = - vy m * 50\<rparr>"

definition handleTransformChange_v1 :: "string \<Rightarrow> vec3 \<Rightarrow> flow_state \<Rightarrow> flow_state" where
  "handleTransformChange_v1 i m s = updateNodePosition i (newPos_v1 m) s"

text \<open>
  Second variant: the divisor is 100, and the effect assigns only \<open>position.x\<close> and
  \<open>position.y\<close> of the group, whose \<open>z\<close> stays at the group's initial 0.
\<close>

definition Node3D_position_v2 :: "position \<Rightarrow> vec3" where
  "Node3D_position_v2 p = \<lparr>vx = px p / 100, vy = - py p / 100, vz = 0\<rparr>"

definition newPos_v2 :: "vec3 \<Rightarrow> position" where
  "newPos_v2 m = \<lparr>px = vx m * 100, py = - vy m * 100\<rparr>"

definition handleTransformChange_v2 :: "string \<Rightarrow> vec3 \<Rightarrow> flow_state \<Rightarrow> flow_state" where
  "handleTransformChange_v2 i m s = updateNodePosition i (newPos_v2 m) s"

section \<open>Edge routing in \<open>Edge3D\<close>\<close>

text \<open>What \<open>Edge3D\<close> hands to the scene: the points of the line, and the position and the rotation about the z axis of the arrow head.\<close>

record edge3d =
  points :: "vec3 list"
  arrowPosition :: vec3
  arrowRotation :: real

subsection \<open>First variant\<close>

definition startPoint_v1 :: "position \<Rightarrow> vec3" where
  "startPoint_v1 sp = \<lparr>vx = px sp / 25, vy = - py sp / 25, vz = 0.005\<rparr>"

definition endPoint_v1 :: "position \<Rightarrow> vec3" where
  "endPoint_v1 tp = \<lparr>vx = px tp / 25, vy = - py tp / 25 + 0.5, vz = 0.005\<rparr>"

definition firstPivot_v1 :: "position \<Rightarrow> vec3" where
  "firstPivot_v1 sp =
     \<lparr>vx = vx (startPoint_v1 sp), vy = vy (startPoint_v1 sp) - 0.8, vz = 0.005\<rparr>"

definition lastPivot_v1 :: "position \<Rightarrow> vec3" where
  "lastPivot_v1 tp =
     \<lparr>vx = vx (endPoint_v1 tp), vy = vy (endPoint_v1 tp) + 0.8, vz = 0.005\<rparr>"

definition xAxisDistance_v1 :: "position \<Rightarrow> position \<Rightarrow> real" where
  "xAxisDistance_v1 sp tp = vx (lastPivot_v1 tp) - vx (firstPivot_v1 sp)"

definition mid1_v1 :: "position \<Rightarrow> position \<Rightarrow> vec3" where
  "mid1_v1 sp tp =
     \<lparr>vx = xAxisDistance_v1 sp tp / 2, vy = vy (firstPivot_v1 sp), vz = 0.005\<rparr>"

definition mid2_v1 :: "position \<Rightarrow> position \<Rightarrow> vec3" where
  "mid2_v1 sp tp =
     \<lparr>vx = xAxisDistance_v1 sp tp / 2, vy = vy (lastPivot_v1 tp), vz = 0.005\<rparr>"

definition Edge3D_v1 :: "position \<Rightarrow> position \<Rightarrow> edge3d" where
  "Edge3D_v1 sp tp =
     \<lparr>points = [startPoint_v1 sp, firstPivot_v1 sp, mid1_v1 sp tp, mid2_v1 sp tp,
                lastPivot_v1 tp, endPoint_v1 tp],
      arrowPosition =
        \<lparr>vx = vx (endPoint_v1 tp), vy = vy (endPoint_v1 tp) + 0.12, vz = 0.005\<rparr>,
      arrowRotation = pi\<rparr>"

subsection \<open>Second variant\<close>

definition startPoint_v2 :: "position \<Rightarrow> vec3" where
  "startPoint_v2 sp = \<lparr>vx = px sp / 50, vy = - py sp / 50, vz = 0.005\<rparr>"

definition endPoint_v2 :: "position \<Rightarrow> vec3" where
  "endPoint_v2 tp = \<lparr>vx = px tp / 50, vy = - py tp / 50, vz = 0.005\<rparr>"

definition xAxisDistance_v2 :: "position \<Rightarrow> position \<Rightarrow> real" where
  "xAxisDistance_v2 sp tp = \<bar>vx (endPoint_v2 tp) - vx (startPoint_v2 sp)\<bar>"

definition yAxisDistance_v2 :: "position \<Rightarrow> position \<Rightarrow> real" where
  "yAxisDistance_v2 sp tp = \<bar>vy (endPoint_v2 tp) - vy (startPoint_v2 sp)\<bar>"

definition mid_v2 :: "position \<Rightarrow> position \<Rightarrow> vec3" where
  "mid_v2 sp tp =
     \<lparr>vx = (if xAxisDistance_v2 sp tp > yAxisDistance_v2 sp tp
             then vx (endPoint_v2 tp) else vx (startPoint_v2 sp)),
      vy = (if xAxisDistance_v2 sp tp > yAxisDistance_v2 sp tp
             then vy (startPoint_v2 sp) else vy (endPoint_v2 tp)),
      vz = 0.005\<rparr>"

definition direction_v2 :: "position \<Rightarrow> position \<Rightarrow> vec3" where
  "direction_v2 sp tp = normalize (subVectors (endPoint_v2 tp) (mid_v2 sp tp))"

definition angle_v2 :: "position \<Rightarrow> position \<Rightarrow> real" where
  "angle_v2 sp tp = atan2 (vy (direction_v2 sp tp)) (vx (direction_v2 sp tp)) + pi / 2"

definition Edge3D_v2 :: "position \<Rightarrow> position \<Rightarrow> edge3d" where
  "Edge3D_v2 sp tp =
     \<lparr>points = [startPoint_v2 sp, mid_v2 sp tp, endPoint_v2 tp],
      arrowPosition =
        \<lparr>vx = vx (endPoint_v2 tp), vy = vy (endPoint_v2 tp), vz = 0.005\<rparr>,
      arrowRotation = angle_v2 sp tp\<rparr>"

subsection \<open>From the store to the 3D edges\<close>

text \<open>
  \<open>edgesWithPositions\<close>: every edge with the positions of the first node carrying its
  source id and of the first carrying its target id, \<open>{ x: 0, y: 0 }\<close> for a node that
  is not found.
\<close>

record edgeWithPositions =
  ewp_edge :: edge
  sourcePosition :: position
  targetPosition :: position

definition positionOr0 :: "node option \<Rightarrow> position" where
  "positionOr0 n = (case n of None \<Rightarrow> \<lparr>px = 0, py = 0\<rparr> | Some m \<Rightarrow> node_position m)"

definition edgeWithPositions :: "node list \<Rightarrow> edge \<Rightarrow> edgeWithPositions" where
  "edgeWithPositions ns e =
     \<lparr>ewp_edge = e,
      sourcePosition = positionOr0 (find (\<lambda>n. node_id n = source e) ns),
      targetPosition = positionOr0 (find (\<lambda>n. node_id n = target e) ns)\<rparr>"

definition edgesWithPositions :: "flow_state \<Rightarrow> edgeWithPositions list" where
  "edgesWithPositions s = map (edgeWithPositions (nodes s)) (edges s)"

text \<open>The 3D view: one \<open>Node3D\<close> per node and one \<open>Edge3D\<close> per element of \<open>edgesWithPositions\<close>.\<close>

definition render3DNodes_v1 :: "flow_state \<Rightarrow> vec3 list" where
  "render3DNodes_v1 s = map (\<lambda>n. Node3D_position_v1 (node_position n)) (nodes s)"

definition render3DNodes_v2 :: "flow_state \<Rightarrow> vec3 list" where
  "render3DNodes_v2 s = map (\<lambda>n. Node3D_position_v2 (node_position n)) (nodes s)"

definition render3DEdges_v1 :: "flow_state \<Rightarrow> edge3d list" where
  "render3DEdges_v1 s =
     map (\<lambda>e. Edge3D_v1 (sourcePosition e) (targetPosition e)) (edgesWithPositions s)"

definition render3DEdges_v2 :: "flow_state \<Rightarrow> edge3d list" where
  "render3DEdges_v2 s =
     map (\<lambda>e. Edge3D_v2 (sourcePosition e) (targetPosition e)) (edgesWithPositions s)"

section \<open>Properties of the store\<close>

lemma nodes_deleteNode_absent:
  "i \<notin> set (nodeIds s) \<Longrightarrow> filter (\<lambda>n. node_id n \<noteq> i) (nodes s) = nodes s"
  by (auto simp: filter_id_conv nodeIds_def)

lemma initial_ids: "nodeIds initialState = [''1'', ''2'', ''3'']"
  by (simp add: nodeIds_def initialState_def initialNodes_def)


lemma flow_state_eq_iff:
  "(\<lparr>nodes = ns, edges = es, selectedNode = sel\<rparr> = s) \<longleftrightarrow>
   ns = nodes s \<and> es = edges s \<and> sel = selectedNode s"
  by (cases s) auto

text \<open>
  Claim C1, as amended. \<open>deleteNode(id)\<close> keeps exactly the nodes whose id differs
  from \<open>id\<close> and, in the same state transition, exactly the edges whose source and
  target both differ from \<open>id\<close>; from the seed store (nodes 1, 2, 3 and edges 1\<rightarrow>2,
  1\<rightarrow>3), \<open>deleteNode("1")\<close> leaves the nodes 2, 3 and no edge. For an id that names no
  node the node list is unchanged, but the edges that refer to the id are still removed
  and the selection is still reset when the callback sees the id selected: the whole
  state is unchanged exactly when no edge refers to the id and the selection is not
  reset.
\<close>

theorem deleteNode_cascade:
  "(\<forall>n. n \<in> set (nodes (deleteNode cap i s)) \<longleftrightarrow> n \<in> set (nodes s) \<and> node_id n \<noteq> i) \<and>
   (\<forall>e. e \<in> set (edges (deleteNode cap i s)) \<longleftrightarrow>
          e \<in> set (edges s) \<and> source e \<noteq> i \<and> target e \<noteq> i) \<and>
   i \<notin> set (nodeIds (deleteNode cap i s)) \<and>
   nodeIds (deleteNode cap ''1'' initialState) = [''2'', ''3''] \<and>
   edges (deleteNode cap ''1'' initialState) = [] \<and>
   (i \<notin> set (nodeIds s) \<longrightarrow> nodes (deleteNode cap i s) = nodes s) \<and>
   (i \<notin> set (nodeIds s) \<longrightarrow>
      (deleteNode cap i s = s \<longleftrightarrow>
         list_all (\<lambda>e. source e \<noteq> i \<and> target e \<noteq> i) (edges s) \<and>
         (cap = Some i \<longrightarrow> selectedNode s = None)))"
proof -
  have nodes_iff: "\<forall>n. n \<in> set (nodes (deleteNode cap i s)) \<longleftrightarrow>
      n \<in> set (nodes s) \<and> node_id n \<noteq> i"
    by (simp add: deleteNode_def)
  have edges_iff: "\<forall>e. e \<in> set (edges (deleteNode cap i s)) \<longleftrightarrow>
      e \<in> set (edges s) \<and> source e \<noteq> i \<and> target e \<noteq> i"
    by (simp add: deleteNode_def)
  have gone: "i \<notin> set (nodeIds (deleteNode cap i s))"
    by (auto simp: deleteNode_def nodeIds_def)
  have ex_nodes: "nodeIds (deleteNode cap ''1'' initialState) = [''2'', ''3'']"
    by (simp add: deleteNode_def nodeIds_def initialState_def initialNodes_def)
  have ex_edges: "edges (deleteNode cap ''1'' initialState) = []"
    by (simp add: deleteNode_def initialState_def initialEdges_def)
  have absent_nodes: "i \<notin> set (nodeIds s) \<longrightarrow> nodes (deleteNode cap i s) = nodes s"
    by (simp add: deleteNode_def nodes_deleteNode_absent)
  have noop: "i \<notin> set (nodeIds s) \<longrightarrow>
      (deleteNode cap i s = s \<longleftrightarrow>
         list_all (\<lambda>e. source e \<noteq> i \<and> target e \<noteq> i) (edges s) \<and>
         (cap = Some i \<longrightarrow> selectedNode s = None))"
  proof
    assume absent: "i \<notin> set (nodeIds s)"
    have sel: "(if cap = Some i then None else selectedNode s) = selectedNode s \<longleftrightarrow>
        (cap = Some i \<longrightarrow> selectedNode s = None)"
      by auto
    have ed: "filter (\<lambda>e. source e \<noteq> i \<and> target e \<noteq> i) (edges s) = edges s \<longleftrightarrow>
        list_all (\<lambda>e. source e \<noteq> i \<and> target e \<noteq> i) (edges s)"
      by (simp add: filter_id_conv list_all_iff)
    have "deleteNode cap i s = s \<longleftrightarrow>
        filter (\<lambda>n. node_id n \<noteq> i) (nodes s) = nodes s \<and>
        filter (\<lambda>e. source e \<noteq> i \<and> target e \<noteq> i) (edges s) = edges s \<and>
        (if cap = Some i then None else selectedNode s) = selectedNode s"
      unfolding deleteNode_def by (rule flow_state_eq_iff)
    with absent sel ed
    show "deleteNode cap i s = s \<longleftrightarrow>
        list_all (\<lambda>e. source e \<noteq> i \<and> target e \<noteq> i) (edges s) \<and>
        (cap = Some i \<longrightarrow> selectedNode s = None)"
      by (simp add: nodes_deleteNode_absent)
  qed
  from nodes_iff edges_iff gone ex_nodes ex_edges absent_nodes noop show ?thesis
    by blast
qed

text \<open>
  C1 at the seed store: the absent id \<open>"4"\<close>, to which no edge refers, leaves the state
  as it is; the present id \<open>"1"\<close> is gone afterwards.
\<close>

theorem deleteNode_cascade_witness:
  "''4'' \<notin> set (nodeIds initialState) \<and>
   list_all (\<lambda>e. source e \<noteq> ''4'' \<and> target e \<noteq> ''4'') (edges initialState) \<and>
   deleteNode (selectedNode initialState) ''4'' initialState = initialState \<and>
   nodes (deleteNode (selectedNode initialState) ''4'' initialState) = nodes initialState \<and>
   ''1'' \<notin> set (nodeIds (deleteNode (selectedNode initialState) ''1'' initialState))"
proof -
  have a: "''4'' \<notin> set (nodeIds initialState)"
    by (simp add: initial_ids)
  have b: "list_all (\<lambda>e. source e \<noteq> ''4'' \<and> target e \<noteq> ''4'') (edges initialState)"
    by (simp add: initialState_def initialEdges_def)
  have c: "selectedNode initialState \<noteq> Some ''4''"
    by (simp add: initialState_def)
  note t = deleteNode_cascade [of "selectedNode initialState" "''4''" initialState]
  from a b c t
  have d: "deleteNode (selectedNode initialState) ''4'' initialState = initialState"
    by blast
  from a t
  have e: "nodes (deleteNode (selectedNode initialState) ''4'' initialState) =
      nodes initialState"
    by blast
  from deleteNode_cascade [of "selectedNode initialState" "''1''" initialState]
  have f: "''1'' \<notin> set (nodeIds (deleteNode (selectedNode initialState) ''1'' initialState))"
    by blast
  from a b d e f show ?thesis by blast
qed

text \<open>
  Against C1 as stated: after connecting \<open>"nonexistent"\<close> to \<open>"2"\<close> in the seed store
  the id \<open>"nonexistent"\<close> names no node, yet \<open>deleteNode("nonexistent")\<close> removes that
  edge, so it is not a no-op.
\<close>

theorem deleteNode_absent_counterexample:
  "''nonexistent'' \<notin> set (nodeIds (onConnect addEdge
      \<lparr>conn_source = ''nonexistent'', conn_target = ''2'',
       conn_sourceHandle = None, conn_targetHandle = None\<rparr> initialState)) \<and>
   length (edges (onConnect addEdge
      \<lparr>conn_source = ''nonexistent'', conn_target = ''2'',
       conn_sourceHandle = None, conn_targetHandle = None\<rparr> initialState)) = 3 \<and>
   edges (deleteNode None ''nonexistent'' (onConnect addEdge
      \<lparr>conn_source = ''nonexistent'', conn_target = ''2'',
       conn_sourceHandle = None, conn_targetHandle = None\<rparr> initialState)) = initialEdges \<and>
   selectedNode (onConnect addEdge
      \<lparr>conn_source = ''nonexistent'', conn_target = ''2'',
       conn_sourceHandle = None, conn_targetHandle = None\<rparr> initialState) = None \<and>
   deleteNode None ''nonexistent'' (onConnect addEdge
      \<lparr>conn_source = ''nonexistent'', conn_target = ''2'',
       conn_sourceHandle = None, conn_targetHandle = None\<rparr> initialState) \<noteq>
     onConnect addEdge
      \<lparr>conn_source = ''nonexistent'', conn_target = ''2'',
       conn_sourceHandle = None, conn_targetHandle = None\<rparr> initialState"
proof -
  let ?s = "onConnect addEdge
      \<lparr>conn_source = ''nonexistent'', conn_target = ''2'',
       conn_sourceHandle = None, conn_targetHandle = None\<rparr> initialState"
  have s: "?s = \<lparr>nodes = initialNodes,
      edges = initialEdges @
        [\<lparr>edge_id = ''xy-edge__nonexistent-2'', source = ''nonexistent'', target = ''2'',
          sourceHandle = None, targetHandle = None\<rparr>],
      selectedNode = None\<rparr>"
    by (simp add: onConnect_def addEdge_def connectionExists_def edgeOfConnection_def
        getEdgeId_def handleOrEmpty_def initialState_def initialEdges_def)
  have a: "''nonexistent'' \<notin> set (nodeIds ?s)"
    unfolding s by (simp add: nodeIds_def initialNodes_def)
  have b: "length (edges ?s) = 3"
    unfolding s by (simp add: initialEdges_def)
  have c: "edges (deleteNode None ''nonexistent'' ?s) = initialEdges"
    unfolding s by (simp add: deleteNode_def initialEdges_def)
  have d: "selectedNode ?s = None"
    unfolding s by simp
  have l: "length initialEdges = 2"
    by (simp add: initialEdges_def)
  have e: "deleteNode None ''nonexistent'' ?s \<noteq> ?s"
  proof
    assume "deleteNode None ''nonexistent'' ?s = ?s"
    then have "edges (deleteNode None ''nonexistent'' ?s) = edges ?s"
      by (rule arg_cong)
    with c [symmetric] have "initialEdges = edges ?s"
      by (rule trans)
    then have "length initialEdges = length (edges ?s)"
      by (rule arg_cong)
    with b l show False by linarith
  qed
  from a b c d e show ?thesis by blast
qed

text \<open>
  Claim C7. \<open>updateNodePosition(id, p)\<close> (the store's move operation) leaves the whole
  state unchanged when \<open>id\<close> names no node. Otherwise it keeps the edges, the
  selection and the number and order of the nodes, replaces the position of each node
  whose id is \<open>id\<close> by \<open>p\<close> and leaves every other field of that node (its id and
  label among them) and every other node as they were.
\<close>

theorem updateNodePosition_frame:
  "(i \<notin> set (nodeIds s) \<longrightarrow> updateNodePosition i p s = s) \<and>
   edges (updateNodePosition i p s) = edges s \<and>
   selectedNode (updateNodePosition i p s) = selectedNode s \<and>
   length (nodes (updateNodePosition i p s)) = length (nodes s) \<and>
   (\<forall>k < length (nodes s).
      nodes (updateNodePosition i p s) ! k =
        (if node_id (nodes s ! k) = i then (nodes s ! k)\<lparr>node_position := p\<rparr>
         else nodes s ! k) \<and>
      node_id (nodes (updateNodePosition i p s) ! k) = node_id (nodes s ! k) \<and>
      label (nodes (updateNodePosition i p s) ! k) = label (nodes s ! k))"
proof -
  have noop: "i \<notin> set (nodeIds s) \<longrightarrow> updateNodePosition i p s = s"
  proof
    assume "i \<notin> set (nodeIds s)"
    then have "map (\<lambda>n. if node_id n = i
          then n\<lparr>node_position := \<lparr>px = px p, py = py p\<rparr>\<rparr> else n) (nodes s) = nodes s"
      by (intro map_idI) (auto simp: nodeIds_def)
    then show "updateNodePosition i p s = s"
      by (simp add: updateNodePosition_def)
  qed
  have rest: "edges (updateNodePosition i p s) = edges s"
    "selectedNode (updateNodePosition i p s) = selectedNode s"
    "length (nodes (updateNodePosition i p s)) = length (nodes s)"
    by (simp_all add: updateNodePosition_def)
  have each: "\<forall>k < length (nodes s).
      nodes (updateNodePosition i p s) ! k =
        (if node_id (nodes s ! k) = i then (nodes s ! k)\<lparr>node_position := p\<rparr>
         else nodes s ! k) \<and>
      node_id (nodes (updateNodePosition i p s) ! k) = node_id (nodes s ! k) \<and>
      label (nodes (updateNodePosition i p s) ! k) = label (nodes s ! k)"
    by (simp add: updateNodePosition_def)
  from noop rest each show ?thesis by blast
qed

text \<open>
  C7 at the seed store: moving the absent id \<open>"9"\<close> changes nothing; moving node
  \<open>"1"\<close> to \<open>(50, 50)\<close> changes its position only, and keeps node \<open>"2"\<close> and
  both edges.
\<close>

theorem updateNodePosition_frame_witness:
  "''9'' \<notin> set (nodeIds initialState) \<and>
   updateNodePosition ''9'' \<lparr>px = 50, py = 50\<rparr> initialState = initialState \<and>
   (0::nat) < length (nodes initialState) \<and>
   nodes (updateNodePosition ''1'' \<lparr>px = 50, py = 50\<rparr> initialState) ! 0 =
     \<lparr>node_id = ''1'', label = ''Node 1'', node_position = \<lparr>px = 50, py = 50\<rparr>,
      node_type = ''custom''\<rparr> \<and>
   (1::nat) < length (nodes initialState) \<and>
   nodes (updateNodePosition ''1'' \<lparr>px = 50, py = 50\<rparr> initialState) ! 1 =
     nodes initialState ! 1 \<and>
   edges (updateNodePosition ''1'' \<lparr>px = 50, py = 50\<rparr> initialState) = initialEdges"
proof -
  have a: "''9'' \<notin> set (nodeIds initialState)" by (simp add: initial_ids)
  have l: "(0::nat) < length (nodes initialState)" "(1::nat) < length (nodes initialState)"
    by (simp_all add: initialState_def initialNodes_def)
  have n0: "nodes initialState ! 0 = \<lparr>node_id = ''1'', label = ''Node 1'',
      node_position = \<lparr>px = 0, py = 0\<rparr>, node_type = ''custom''\<rparr>"
    and n1: "node_id (nodes initialState ! 1) = ''2''"
    by (simp_all add: initialState_def initialNodes_def)
  have e: "edges initialState = initialEdges" by (simp add: initialState_def)
  note t9 = updateNodePosition_frame [of "''9''" initialState "\<lparr>px = 50, py = 50\<rparr>"]
  note t1 = updateNodePosition_frame [of "''1''" initialState "\<lparr>px = 50, py = 50\<rparr>"]
  from t9 a have "updateNodePosition ''9'' \<lparr>px = 50, py = 50\<rparr> initialState = initialState"
    by blast
  moreover from t1 l(1) n0
  have "nodes (updateNodePosition ''1'' \<lparr>px = 50, py = 50\<rparr> initialState) ! 0 =
     \<lparr>node_id = ''1'', label = ''Node 1'', node_position = \<lparr>px = 50, py = 50\<rparr>,
      node_type = ''custom''\<rparr>"
    by simp
  moreover from t1 l(2) n1
  have "nodes (updateNodePosition ''1'' \<lparr>px = 50, py = 50\<rparr> initialState) ! 1 =
     nodes initialState ! 1"
    by simp
  moreover from t1 e
  have "edges (updateNodePosition ''1'' \<lparr>px = 50, py = 50\<rparr> initialState) = initialEdges"
    by simp
  ultimately show ?thesis using a l by blast
qed









text \<open>
  Claim C3. In both variants the two coordinate mappings of \<open>Node3D\<close> are mutual
  inverses: mapping a planar position to the scene (divide by 50, respectively 100, and
  negate the vertical axis) and back (multiply by the same number and negate the
  vertical axis) gives the position again, and the other way round on the two
  coordinates the way back reads. So dragging a node to the scene position of \<open>p\<close>
  stores \<open>p\<close>. The arithmetic is exact here; the source's floating-point rounding is
  not modelled.
\<close>

theorem coordinate_mapper_inverse:
  "newPos_v1 (Node3D_position_v1 p) = p \<and>
   newPos_v2 (Node3D_position_v2 p) = p \<and>
   vx (Node3D_position_v1 (newPos_v1 m)) = vx m \<and>
   vy (Node3D_position_v1 (newPos_v1 m)) = vy m \<and>
   vx (Node3D_position_v2 (newPos_v2 m)) = vx m \<and>
   vy (Node3D_position_v2 (newPos_v2 m)) = vy m \<and>
   handleTransformChange_v1 i (Node3D_position_v1 p) s = updateNodePosition i p s \<and>
   handleTransformChange_v2 i (Node3D_position_v2 p) s = updateNodePosition i p s"
proof -
  have r1: "newPos_v1 (Node3D_position_v1 p) = p"
    by (simp add: newPos_v1_def Node3D_position_v1_def)
  have r2: "newPos_v2 (Node3D_position_v2 p) = p"
    by (simp add: newPos_v2_def Node3D_position_v2_def)
  have s1: "vx (Node3D_position_v1 (newPos_v1 m)) = vx m"
    "vy (Node3D_position_v1 (newPos_v1 m)) = vy m"
    by (simp_all add: newPos_v1_def Node3D_position_v1_def)
  have s2: "vx (Node3D_position_v2 (newPos_v2 m)) = vx m"
    "vy (Node3D_position_v2 (newPos_v2 m)) = vy m"
    by (simp_all add: newPos_v2_def Node3D_position_v2_def)
  have h1: "handleTransformChange_v1 i (Node3D_position_v1 p) s = updateNodePosition i p s"
    by (simp only: handleTransformChange_v1_def r1)
  have h2: "handleTransformChange_v2 i (Node3D_position_v2 p) s = updateNodePosition i p s"
    by (simp only: handleTransformChange_v2_def r2)
  from r1 r2 s1 s2 h1 h2 show ?thesis by blast
qed

text \<open>
  Claim C10, as amended. For every input the router of the first variant outputs a
  polyline of exactly 6 points (start, first pivot, two middle points, last pivot, end)
  and the router of the second variant one of exactly 3 points (start, elbow, end).
\<close>

theorem polyline_sizes:
  "length (points (Edge3D_v1 sp tp)) = 6 \<and> length (points (Edge3D_v2 sp tp)) = 3"
  by (simp add: Edge3D_v1_def Edge3D_v2_def)

text \<open>
  Against C10 as stated: the polyline of the first variant does not have 5 points (here
  for the seed edge from node 1 to node 2).
\<close>

theorem polyline_sizes_counterexample:
  "length (points (Edge3D_v1 \<lparr>px = 0, py = 0\<rparr> \<lparr>px = 200, py = 100\<rparr>)) \<noteq> 5"
  by (simp add: Edge3D_v1_def)

lemma atan2_scale: "0 < k \<Longrightarrow> atan2 (y * k) (x * k) = atan2 y x"
  by (simp add: atan2_def zero_less_mult_iff mult_less_0_iff zero_le_mult_iff)

lemma vec_length_nonneg: "0 \<le> vec_length v"
  by (simp add: vec_length_def)

lemma normalizeDivisor_pos: "0 < normalizeDivisor v"
  using vec_length_nonneg [of v] by (simp add: normalizeDivisor_def)

lemma atan2_normalize: "atan2 (vy (normalize v)) (vx (normalize v)) = atan2 (vy v) (vx v)"
proof -
  have "0 < 1 / normalizeDivisor v"
    using normalizeDivisor_pos [of v] by simp
  then have "atan2 (vy v * (1 / normalizeDivisor v)) (vx v * (1 / normalizeDivisor v)) =
      atan2 (vy v) (vx v)"
    by (rule atan2_scale)
  then show ?thesis
    by (simp add: normalize_def divideScalar_def multiplyScalar_def)
qed

lemma angle_v2_segment:
  "angle_v2 sp tp =
     atan2 (vy (endPoint_v2 tp) - vy (mid_v2 sp tp))
           (vx (endPoint_v2 tp) - vx (mid_v2 sp tp)) + pi / 2"
  by (simp add: angle_v2_def direction_v2_def atan2_normalize subVectors_def)

lemma mid_v2_horizontal_first:
  "xAxisDistance_v2 sp tp > yAxisDistance_v2 sp tp \<Longrightarrow>
   mid_v2 sp tp = \<lparr>vx = vx (endPoint_v2 tp), vy = vy (startPoint_v2 sp), vz = 0.005\<rparr>"
  by (simp add: mid_v2_def)

lemma mid_v2_vertical_first:
  "xAxisDistance_v2 sp tp \<le> yAxisDistance_v2 sp tp \<Longrightarrow>
   mid_v2 sp tp = \<lparr>vx = vx (startPoint_v2 sp), vy = vy (endPoint_v2 tp), vz = 0.005\<rparr>"
  by (simp add: mid_v2_def)

lemma angle_v2_cases:
  "xAxisDistance_v2 sp tp > yAxisDistance_v2 sp tp \<Longrightarrow>
     angle_v2 sp tp =
       (if vy (endPoint_v2 tp) > vy (startPoint_v2 sp) then pi
        else if vy (endPoint_v2 tp) < vy (startPoint_v2 sp) then 0 else pi / 2)"
  "xAxisDistance_v2 sp tp \<le> yAxisDistance_v2 sp tp \<Longrightarrow>
     angle_v2 sp tp =
       (if vx (endPoint_v2 tp) > vx (startPoint_v2 sp) then pi / 2
        else if vx (endPoint_v2 tp) < vx (startPoint_v2 sp) then 3 * pi / 2 else pi / 2)"
  by (simp_all add: angle_v2_segment mid_v2_horizontal_first mid_v2_vertical_first atan2_def)


text \<open>
  Claim C5, as amended. The router of the second variant outputs start, elbow, end and
  routes first along the axis with the larger absolute delta between the two scene
  points, as it computes them (\<open>xAxisDistance\<close>, \<open>yAxisDistance\<close>): when the
  horizontal delta is larger the elbow has the end's x and the start's y (horizontal,
  then vertical); when the vertical delta is larger, and also when the two are equal,
  the elbow has the start's x and the end's y (vertical, then horizontal). Nothing is
  said about the deltas of the planar positions, whose order the division by 50 need
  not keep in floating point. The router of the first variant compares no deltas: its
  first segment always runs vertically, 0.8 down from the start.
\<close>

theorem router_elbow:
  "points (Edge3D_v2 sp tp) = [startPoint_v2 sp, mid_v2 sp tp, endPoint_v2 tp] \<and>
   xAxisDistance_v2 sp tp = \<bar>vx (endPoint_v2 tp) - vx (startPoint_v2 sp)\<bar> \<and>
   yAxisDistance_v2 sp tp = \<bar>vy (endPoint_v2 tp) - vy (startPoint_v2 sp)\<bar> \<and>
   (xAxisDistance_v2 sp tp > yAxisDistance_v2 sp tp \<longrightarrow>
      mid_v2 sp tp = \<lparr>vx = vx (endPoint_v2 tp), vy = vy (startPoint_v2 sp), vz = 0.005\<rparr>) \<and>
   (xAxisDistance_v2 sp tp < yAxisDistance_v2 sp tp \<longrightarrow>
      mid_v2 sp tp = \<lparr>vx = vx (startPoint_v2 sp), vy = vy (endPoint_v2 tp), vz = 0.005\<rparr>) \<and>
   (xAxisDistance_v2 sp tp = yAxisDistance_v2 sp tp \<longrightarrow>
      mid_v2 sp tp = \<lparr>vx = vx (startPoint_v2 sp), vy = vy (endPoint_v2 tp), vz = 0.005\<rparr>) \<and>
   vx (points (Edge3D_v1 sp tp) ! 1) = vx (points (Edge3D_v1 sp tp) ! 0) \<and>
   vy (points (Edge3D_v1 sp tp) ! 1) = vy (points (Edge3D_v1 sp tp) ! 0) - 0.8"
proof -
  have v1: "vx (points (Edge3D_v1 sp tp) ! 1) = vx (points (Edge3D_v1 sp tp) ! 0)"
    "vy (points (Edge3D_v1 sp tp) ! 1) = vy (points (Edge3D_v1 sp tp) ! 0) - 0.8"
    by (simp_all add: Edge3D_v1_def firstPivot_v1_def)
  have pts: "points (Edge3D_v2 sp tp) = [startPoint_v2 sp, mid_v2 sp tp, endPoint_v2 tp]"
    by (simp add: Edge3D_v2_def)
  have dx: "xAxisDistance_v2 sp tp = \<bar>vx (endPoint_v2 tp) - vx (startPoint_v2 sp)\<bar>"
    by (simp add: xAxisDistance_v2_def)
  have dy: "yAxisDistance_v2 sp tp = \<bar>vy (endPoint_v2 tp) - vy (startPoint_v2 sp)\<bar>"
    by (simp add: yAxisDistance_v2_def)
  have hor: "xAxisDistance_v2 sp tp > yAxisDistance_v2 sp tp \<longrightarrow>
      mid_v2 sp tp = \<lparr>vx = vx (endPoint_v2 tp), vy = vy (startPoint_v2 sp), vz = 0.005\<rparr>"
    by (simp add: mid_v2_horizontal_first)
  have ver: "xAxisDistance_v2 sp tp < yAxisDistance_v2 sp tp \<longrightarrow>
      mid_v2 sp tp = \<lparr>vx = vx (startPoint_v2 sp), vy = vy (endPoint_v2 tp), vz = 0.005\<rparr>"
    by (simp add: mid_v2_vertical_first)
  have tie: "xAxisDistance_v2 sp tp = yAxisDistance_v2 sp tp \<longrightarrow>
      mid_v2 sp tp = \<lparr>vx = vx (startPoint_v2 sp), vy = vy (endPoint_v2 tp), vz = 0.005\<rparr>"
    by (simp add: mid_v2_vertical_first)
  from pts dx dy hor ver tie v1 show ?thesis by blast
qed

text \<open>
  C5 for the seed edge from node 1 to node 2 (scene deltas 4 and 2: horizontal first),
  for a target at \<open>(100, 100)\<close> (scene deltas 2 and 2: vertical first) and for a target
  at \<open>(50, 100)\<close> (scene deltas 1 and 2: vertical first).
\<close>

theorem router_elbow_witness:
  "xAxisDistance_v2 \<lparr>px = 0, py = 0\<rparr> \<lparr>px = 200, py = 100\<rparr> >
     yAxisDistance_v2 \<lparr>px = 0, py = 0\<rparr> \<lparr>px = 200, py = 100\<rparr> \<and>
   mid_v2 \<lparr>px = 0, py = 0\<rparr> \<lparr>px = 200, py = 100\<rparr> = \<lparr>vx = 4, vy = 0, vz = 0.005\<rparr> \<and>
   xAxisDistance_v2 \<lparr>px = 0, py = 0\<rparr> \<lparr>px = 100, py = 100\<rparr> =
     yAxisDistance_v2 \<lparr>px = 0, py = 0\<rparr> \<lparr>px = 100, py = 100\<rparr> \<and>
   mid_v2 \<lparr>px = 0, py = 0\<rparr> \<lparr>px = 100, py = 100\<rparr> = \<lparr>vx = 0, vy = - 2, vz = 0.005\<rparr> \<and>
   xAxisDistance_v2 \<lparr>px = 0, py = 0\<rparr> \<lparr>px = 50, py = 100\<rparr> <
     yAxisDistance_v2 \<lparr>px = 0, py = 0\<rparr> \<lparr>px = 50, py = 100\<rparr> \<and>
   mid_v2 \<lparr>px = 0, py = 0\<rparr> \<lparr>px = 50, py = 100\<rparr> = \<lparr>vx = 0, vy = - 2, vz = 0.005\<rparr>"
proof -
  have a: "xAxisDistance_v2 \<lparr>px = 0, py = 0\<rparr> \<lparr>px = 200, py = 100\<rparr> >
     yAxisDistance_v2 \<lparr>px = 0, py = 0\<rparr> \<lparr>px = 200, py = 100\<rparr>"
    by (simp add: xAxisDistance_v2_def yAxisDistance_v2_def startPoint_v2_def endPoint_v2_def)
  have b: "xAxisDistance_v2 \<lparr>px = 0, py = 0\<rparr> \<lparr>px = 100, py = 100\<rparr> =
     yAxisDistance_v2 \<lparr>px = 0, py = 0\<rparr> \<lparr>px = 100, py = 100\<rparr>"
    by (simp add: xAxisDistance_v2_def yAxisDistance_v2_def startPoint_v2_def endPoint_v2_def)
  have c: "xAxisDistance_v2 \<lparr>px = 0, py = 0\<rparr> \<lparr>px = 50, py = 100\<rparr> <
     yAxisDistance_v2 \<lparr>px = 0, py = 0\<rparr> \<lparr>px = 50, py = 100\<rparr>"
    by (simp add: xAxisDistance_v2_def yAxisDistance_v2_def startPoint_v2_def endPoint_v2_def)
  from a router_elbow [of "\<lparr>px = 0, py = 0\<rparr>" "\<lparr>px = 200, py = 100\<rparr>"]
  have d: "mid_v2 \<lparr>px = 0, py = 0\<rparr> \<lparr>px = 200, py = 100\<rparr> = \<lparr>vx = 4, vy = 0, vz = 0.005\<rparr>"
    by (simp add: startPoint_v2_def endPoint_v2_def)
  from b router_elbow [of "\<lparr>px = 0, py = 0\<rparr>" "\<lparr>px = 100, py = 100\<rparr>"]
  have e: "mid_v2 \<lparr>px = 0, py = 0\<rparr> \<lparr>px = 100, py = 100\<rparr> = \<lparr>vx = 0, vy = - 2, vz = 0.005\<rparr>"
    by (simp add: startPoint_v2_def endPoint_v2_def)
  from c router_elbow [of "\<lparr>px = 0, py = 0\<rparr>" "\<lparr>px = 50, py = 100\<rparr>"]
  have f: "mid_v2 \<lparr>px = 0, py = 0\<rparr> \<lparr>px = 50, py = 100\<rparr> = \<lparr>vx = 0, vy = - 2, vz = 0.005\<rparr>"
    by (simp add: startPoint_v2_def endPoint_v2_def)
  from a b c d e f show ?thesis by blast
qed

text \<open>
  Against C5 as stated, in the first variant: from \<open>(0, 0)\<close> to \<open>(100, 0)\<close> the
  horizontal delta of the scene points is larger than the vertical one, yet the second
  point of the polyline is straight below the start, and the elbow the claim describes
  (the end's x with the start's y) is not a point of the polyline.
\<close>

theorem router_elbow_counterexample:
  "\<bar>vx (endPoint_v1 \<lparr>px = 100, py = 0\<rparr>) - vx (startPoint_v1 \<lparr>px = 0, py = 0\<rparr>)\<bar> >
     \<bar>vy (endPoint_v1 \<lparr>px = 100, py = 0\<rparr>) - vy (startPoint_v1 \<lparr>px = 0, py = 0\<rparr>)\<bar> \<and>
   points (Edge3D_v1 \<lparr>px = 0, py = 0\<rparr> \<lparr>px = 100, py = 0\<rparr>) ! 0 =
     \<lparr>vx = 0, vy = 0, vz = 0.005\<rparr> \<and>
   points (Edge3D_v1 \<lparr>px = 0, py = 0\<rparr> \<lparr>px = 100, py = 0\<rparr>) ! 1 =
     \<lparr>vx = 0, vy = - 0.8, vz = 0.005\<rparr> \<and>
   \<lparr>vx = vx (endPoint_v1 \<lparr>px = 100, py = 0\<rparr>), vy = vy (startPoint_v1 \<lparr>px = 0, py = 0\<rparr>),
     vz = 0.005\<rparr> \<notin> set (points (Edge3D_v1 \<lparr>px = 0, py = 0\<rparr> \<lparr>px = 100, py = 0\<rparr>))"
  by (simp add: Edge3D_v1_def startPoint_v1_def endPoint_v1_def firstPivot_v1_def
      lastPivot_v1_def mid1_v1_def mid2_v1_def xAxisDistance_v1_def)


lemma polylineLength_same: "polylineLength [p, p, p] = 0"
  by (simp add: distanceTo_def subVectors_def vec_length_def)

lemma find_absent: "i \<notin> set (map node_id ns) \<Longrightarrow> find (\<lambda>n. node_id n = i) ns = None"
  by (induction ns) auto

text \<open>
  Claim C8. For identical source and target positions the router of the second variant
  returns three times the same point and the arrow rotation \<open>\<pi>/2\<close>: a path of length
  0. The vector it normalises is zero, the divisor of the normalisation is then 1 and
  not 0, and the direction is the zero vector. Identical positions are what
  \<open>edgesWithPositions\<close> gives for an edge from a node to itself and for an edge both
  of whose endpoints are missing (both resolve to \<open>(0, 0)\<close>).
\<close>

theorem router_degenerate:
  "Edge3D_v2 p p =
     \<lparr>points = [startPoint_v2 p, startPoint_v2 p, startPoint_v2 p],
      arrowPosition = startPoint_v2 p, arrowRotation = pi / 2\<rparr> \<and>
   polylineLength (points (Edge3D_v2 p p)) = 0 \<and>
   normalizeDivisor (subVectors (endPoint_v2 p) (mid_v2 p p)) = 1 \<and>
   direction_v2 p p = \<lparr>vx = 0, vy = 0, vz = 0\<rparr> \<and>
   (source e = target e \<longrightarrow>
      sourcePosition (edgeWithPositions ns e) = targetPosition (edgeWithPositions ns e)) \<and>
   (source e \<notin> set (map node_id ns) \<and> target e \<notin> set (map node_id ns) \<longrightarrow>
      sourcePosition (edgeWithPositions ns e) = \<lparr>px = 0, py = 0\<rparr> \<and>
      targetPosition (edgeWithPositions ns e) = \<lparr>px = 0, py = 0\<rparr>)"
proof -
  have se: "endPoint_v2 p = startPoint_v2 p"
    by (simp add: endPoint_v2_def startPoint_v2_def)
  have mid: "mid_v2 p p = startPoint_v2 p"
    by (simp add: mid_v2_def se) (simp add: startPoint_v2_def)
  have sub: "subVectors (endPoint_v2 p) (mid_v2 p p) = \<lparr>vx = 0, vy = 0, vz = 0\<rparr>"
    by (simp add: se mid subVectors_def)
  have dv: "normalizeDivisor (subVectors (endPoint_v2 p) (mid_v2 p p)) = 1"
    by (simp add: sub normalizeDivisor_def vec_length_def)
  have dir: "direction_v2 p p = \<lparr>vx = 0, vy = 0, vz = 0\<rparr>"
    unfolding direction_v2_def normalize_def dv
    by (simp add: sub divideScalar_def multiplyScalar_def)
  have ang: "angle_v2 p p = pi / 2"
    by (simp add: angle_v2_def dir atan2_def)
  have e3: "Edge3D_v2 p p =
     \<lparr>points = [startPoint_v2 p, startPoint_v2 p, startPoint_v2 p],
      arrowPosition = startPoint_v2 p, arrowRotation = pi / 2\<rparr>"
    by (simp add: Edge3D_v2_def se mid ang) (simp add: startPoint_v2_def)
  have len: "polylineLength (points (Edge3D_v2 p p)) = 0"
    by (simp only: e3 edge3d.simps polylineLength_same)
  have loop: "source e = target e \<longrightarrow>
      sourcePosition (edgeWithPositions ns e) = targetPosition (edgeWithPositions ns e)"
    by (simp add: edgeWithPositions_def)
  have dangling: "source e \<notin> set (map node_id ns) \<and> target e \<notin> set (map node_id ns) \<longrightarrow>
      sourcePosition (edgeWithPositions ns e) = \<lparr>px = 0, py = 0\<rparr> \<and>
      targetPosition (edgeWithPositions ns e) = \<lparr>px = 0, py = 0\<rparr>"
    by (simp add: edgeWithPositions_def positionOr0_def find_absent)
  from e3 len dv dir loop dangling show ?thesis by blast
qed

text \<open>
  C8 on the seed nodes: an edge between the missing ids \<open>"8"\<close> and \<open>"9"\<close> resolves to
  \<open>(0, 0)\<close> twice, an edge from node \<open>"2"\<close> to itself to the same position twice, and
  the router's output at \<open>(0, 0)\<close>, \<open>(0, 0)\<close>.
\<close>

theorem router_degenerate_witness:
  "''8'' \<notin> set (map node_id initialNodes) \<and> ''9'' \<notin> set (map node_id initialNodes) \<and>
   sourcePosition (edgeWithPositions initialNodes
     \<lparr>edge_id = ''e8-9'', source = ''8'', target = ''9'',
      sourceHandle = None, targetHandle = None\<rparr>) = \<lparr>px = 0, py = 0\<rparr> \<and>
   targetPosition (edgeWithPositions initialNodes
     \<lparr>edge_id = ''e8-9'', source = ''8'', target = ''9'',
      sourceHandle = None, targetHandle = None\<rparr>) = \<lparr>px = 0, py = 0\<rparr> \<and>
   sourcePosition (edgeWithPositions initialNodes
     \<lparr>edge_id = ''e2-2'', source = ''2'', target = ''2'',
      sourceHandle = None, targetHandle = None\<rparr>) =
   targetPosition (edgeWithPositions initialNodes
     \<lparr>edge_id = ''e2-2'', source = ''2'', target = ''2'',
      sourceHandle = None, targetHandle = None\<rparr>) \<and>
   Edge3D_v2 \<lparr>px = 0, py = 0\<rparr> \<lparr>px = 0, py = 0\<rparr> =
     \<lparr>points = [\<lparr>vx = 0, vy = 0, vz = 0.005\<rparr>, \<lparr>vx = 0, vy = 0, vz = 0.005\<rparr>,
                \<lparr>vx = 0, vy = 0, vz = 0.005\<rparr>],
      arrowPosition = \<lparr>vx = 0, vy = 0, vz = 0.005\<rparr>, arrowRotation = pi / 2\<rparr>"
proof -
  have a: "''8'' \<notin> set (map node_id initialNodes) \<and> ''9'' \<notin> set (map node_id initialNodes)"
    by (simp add: initialNodes_def)
  note t = router_degenerate [of "\<lparr>px = 0, py = 0\<rparr>" _ initialNodes]
  from a t [of "\<lparr>edge_id = ''e8-9'', source = ''8'', target = ''9'',
      sourceHandle = None, targetHandle = None\<rparr>"]
  have b: "sourcePosition (edgeWithPositions initialNodes
     \<lparr>edge_id = ''e8-9'', source = ''8'', target = ''9'',
      sourceHandle = None, targetHandle = None\<rparr>) = \<lparr>px = 0, py = 0\<rparr> \<and>
   targetPosition (edgeWithPositions initialNodes
     \<lparr>edge_id = ''e8-9'', source = ''8'', target = ''9'',
      sourceHandle = None, targetHandle = None\<rparr>) = \<lparr>px = 0, py = 0\<rparr>"
    by simp
  from t [of "\<lparr>edge_id = ''e2-2'', source = ''2'', target = ''2'',
      sourceHandle = None, targetHandle = None\<rparr>"]
  have c: "sourcePosition (edgeWithPositions initialNodes
     \<lparr>edge_id = ''e2-2'', source = ''2'', target = ''2'',
      sourceHandle = None, targetHandle = None\<rparr>) =
   targetPosition (edgeWithPositions initialNodes
     \<lparr>edge_id = ''e2-2'', source = ''2'', target = ''2'',
      sourceHandle = None, targetHandle = None\<rparr>)"
    by simp
  from t [of "\<lparr>edge_id = ''e2-2'', source = ''2'', target = ''2'',
      sourceHandle = None, targetHandle = None\<rparr>"]
  have d: "Edge3D_v2 \<lparr>px = 0, py = 0\<rparr> \<lparr>px = 0, py = 0\<rparr> =
     \<lparr>points = [\<lparr>vx = 0, vy = 0, vz = 0.005\<rparr>, \<lparr>vx = 0, vy = 0, vz = 0.005\<rparr>,
                \<lparr>vx = 0, vy = 0, vz = 0.005\<rparr>],
      arrowPosition = \<lparr>vx = 0, vy = 0, vz = 0.005\<rparr>, arrowRotation = pi / 2\<rparr>"
    by (simp add: startPoint_v2_def)
  from a b c d show ?thesis by blast
qed

text \<open>
  Claim C9, as amended. In the second variant the rotation of the arrow head is the
  angle (\<open>atan2\<close>) of the final segment, from the elbow to the end, plus \<open>\<pi>/2\<close>; it
  depends on the direction of that segment: \<open>\<pi>\<close> when it points up, 0 when it points
  down, \<open>\<pi>/2\<close> when it points right, \<open>3\<pi>/2\<close> when it points left, and \<open>\<pi>/2\<close> when
  it has length 0. In the first variant the rotation is the constant \<open>\<pi>\<close>.
\<close>

theorem arrow_rotation:
  "points (Edge3D_v2 sp tp) = [startPoint_v2 sp, mid_v2 sp tp, endPoint_v2 tp] \<and>
   arrowRotation (Edge3D_v2 sp tp) =
     atan2 (vy (endPoint_v2 tp) - vy (mid_v2 sp tp))
           (vx (endPoint_v2 tp) - vx (mid_v2 sp tp)) + pi / 2 \<and>
   (xAxisDistance_v2 sp tp > yAxisDistance_v2 sp tp \<longrightarrow>
      arrowRotation (Edge3D_v2 sp tp) =
        (if vy (endPoint_v2 tp) > vy (startPoint_v2 sp) then pi
         else if vy (endPoint_v2 tp) < vy (startPoint_v2 sp) then 0 else pi / 2)) \<and>
   (xAxisDistance_v2 sp tp \<le> yAxisDistance_v2 sp tp \<longrightarrow>
      arrowRotation (Edge3D_v2 sp tp) =
        (if vx (endPoint_v2 tp) > vx (startPoint_v2 sp) then pi / 2
         else if vx (endPoint_v2 tp) < vx (startPoint_v2 sp) then 3 * pi / 2 else pi / 2)) \<and>
   arrowRotation (Edge3D_v1 sp tp) = pi"
proof -
  have rot: "arrowRotation (Edge3D_v2 sp tp) = angle_v2 sp tp"
    by (simp add: Edge3D_v2_def)
  have pts: "points (Edge3D_v2 sp tp) = [startPoint_v2 sp, mid_v2 sp tp, endPoint_v2 tp]"
    by (simp add: Edge3D_v2_def)
  have seg: "arrowRotation (Edge3D_v2 sp tp) =
     atan2 (vy (endPoint_v2 tp) - vy (mid_v2 sp tp))
           (vx (endPoint_v2 tp) - vx (mid_v2 sp tp)) + pi / 2"
    by (simp only: rot angle_v2_segment)
  have hor: "xAxisDistance_v2 sp tp > yAxisDistance_v2 sp tp \<longrightarrow>
      arrowRotation (Edge3D_v2 sp tp) =
        (if vy (endPoint_v2 tp) > vy (startPoint_v2 sp) then pi
         else if vy (endPoint_v2 tp) < vy (startPoint_v2 sp) then 0 else pi / 2)"
    using angle_v2_cases(1) [of sp tp] by (simp only: rot) blast
  have ver: "xAxisDistance_v2 sp tp \<le> yAxisDistance_v2 sp tp \<longrightarrow>
      arrowRotation (Edge3D_v2 sp tp) =
        (if vx (endPoint_v2 tp) > vx (startPoint_v2 sp) then pi / 2
         else if vx (endPoint_v2 tp) < vx (startPoint_v2 sp) then 3 * pi / 2 else pi / 2)"
    using angle_v2_cases(2) [of sp tp] by (simp only: rot) blast
  have v1: "arrowRotation (Edge3D_v1 sp tp) = pi"
    by (simp add: Edge3D_v1_def)
  from pts seg hor ver v1 show ?thesis by blast
qed

text \<open>
  C9 in the second variant for the two seed edges: the final segment of the edge to node
  2 points down (rotation 0), the one of the edge to node 3 points left (rotation
  \<open>3\<pi>/2\<close>).
\<close>

theorem arrow_rotation_witness:
  "xAxisDistance_v2 \<lparr>px = 0, py = 0\<rparr> \<lparr>px = 200, py = 100\<rparr> >
     yAxisDistance_v2 \<lparr>px = 0, py = 0\<rparr> \<lparr>px = 200, py = 100\<rparr> \<and>
   arrowRotation (Edge3D_v2 \<lparr>px = 0, py = 0\<rparr> \<lparr>px = 200, py = 100\<rparr>) = 0 \<and>
   xAxisDistance_v2 \<lparr>px = 0, py = 0\<rparr> \<lparr>px = - 100, py = 100\<rparr> \<le>
     yAxisDistance_v2 \<lparr>px = 0, py = 0\<rparr> \<lparr>px = - 100, py = 100\<rparr> \<and>
   arrowRotation (Edge3D_v2 \<lparr>px = 0, py = 0\<rparr> \<lparr>px = - 100, py = 100\<rparr>) = 3 * pi / 2"
proof -
  have a: "xAxisDistance_v2 \<lparr>px = 0, py = 0\<rparr> \<lparr>px = 200, py = 100\<rparr> >
     yAxisDistance_v2 \<lparr>px = 0, py = 0\<rparr> \<lparr>px = 200, py = 100\<rparr>"
    by (simp add: xAxisDistance_v2_def yAxisDistance_v2_def startPoint_v2_def endPoint_v2_def)
  have b: "xAxisDistance_v2 \<lparr>px = 0, py = 0\<rparr> \<lparr>px = - 100, py = 100\<rparr> \<le>
     yAxisDistance_v2 \<lparr>px = 0, py = 0\<rparr> \<lparr>px = - 100, py = 100\<rparr>"
    by (simp add: xAxisDistance_v2_def yAxisDistance_v2_def startPoint_v2_def endPoint_v2_def)
  from a arrow_rotation [of "\<lparr>px = 0, py = 0\<rparr>" "\<lparr>px = 200, py = 100\<rparr>"]
  have c: "arrowRotation (Edge3D_v2 \<lparr>px = 0, py = 0\<rparr> \<lparr>px = 200, py = 100\<rparr>) = 0"
    by (simp add: startPoint_v2_def endPoint_v2_def)
  from b arrow_rotation [of "\<lparr>px = 0, py = 0\<rparr>" "\<lparr>px = - 100, py = 100\<rparr>"]
  have d: "arrowRotation (Edge3D_v2 \<lparr>px = 0, py = 0\<rparr> \<lparr>px = - 100, py = 100\<rparr>) = 3 * pi / 2"
    by (simp add: startPoint_v2_def endPoint_v2_def)
  from a b c d show ?thesis by blast
qed

text \<open>
  Against C9 as stated, in the first variant: for the seed edge from node 1 to node 2 the
  final segment runs from \<open>(8, -2.7)\<close> down to \<open>(8, -3.5)\<close>, its angle plus \<open>\<pi>/2\<close> is
  0, and the rotation of the arrow head is \<open>\<pi>\<close>.
\<close>

theorem arrow_rotation_v1_counterexample:
  "points (Edge3D_v1 \<lparr>px = 0, py = 0\<rparr> \<lparr>px = 200, py = 100\<rparr>) ! 4 =
     \<lparr>vx = 8, vy = - 2.7, vz = 0.005\<rparr> \<and>
   points (Edge3D_v1 \<lparr>px = 0, py = 0\<rparr> \<lparr>px = 200, py = 100\<rparr>) ! 5 =
     \<lparr>vx = 8, vy = - 3.5, vz = 0.005\<rparr> \<and>
   atan2 (- 3.5 - (- 2.7)) (8 - 8) + pi / 2 = 0 \<and>
   arrowRotation (Edge3D_v1 \<lparr>px = 0, py = 0\<rparr> \<lparr>px = 200, py = 100\<rparr>) = pi \<and>
   arrowRotation (Edge3D_v1 \<lparr>px = 0, py = 0\<rparr> \<lparr>px = 200, py = 100\<rparr>) \<noteq>
     atan2 (- 3.5 - (- 2.7)) (8 - 8) + pi / 2"
  by (simp add: Edge3D_v1_def endPoint_v1_def lastPivot_v1_def atan2_def)


lemma positionOr0_Some: "positionOr0 (Some n) = node_position n"
  by (simp add: positionOr0_def)

text \<open>
  Claim C4, as amended. The first and the last point of an edge's polyline are computed
  from the planar positions by a mapping that flips the vertical axis and divides by a
  fixed number, but not by the mapping that places the 3D nodes: the divisor is 25
  where the nodes use 50 (first variant, whose end point is also raised by 0.5) and 50
  where the nodes use 100 (second variant). The end points are therefore twice the
  positions of the node groups. In the 3D view, an edge whose two endpoints are found
  among the nodes is drawn from the positions of those two nodes.
\<close>

theorem edge_endpoints:
  "hd (points (Edge3D_v1 sp tp)) = \<lparr>vx = px sp / 25, vy = - py sp / 25, vz = 0.005\<rparr> \<and>
   last (points (Edge3D_v1 sp tp)) = \<lparr>vx = px tp / 25, vy = - py tp / 25 + 0.5, vz = 0.005\<rparr> \<and>
   hd (points (Edge3D_v2 sp tp)) = \<lparr>vx = px sp / 50, vy = - py sp / 50, vz = 0.005\<rparr> \<and>
   last (points (Edge3D_v2 sp tp)) = \<lparr>vx = px tp / 50, vy = - py tp / 50, vz = 0.005\<rparr> \<and>
   vx (hd (points (Edge3D_v1 sp tp))) = 2 * vx (Node3D_position_v1 sp) \<and>
   vy (hd (points (Edge3D_v1 sp tp))) = 2 * vy (Node3D_position_v1 sp) \<and>
   vx (last (points (Edge3D_v1 sp tp))) = 2 * vx (Node3D_position_v1 tp) \<and>
   vy (last (points (Edge3D_v1 sp tp))) = 2 * vy (Node3D_position_v1 tp) + 0.5 \<and>
   vx (hd (points (Edge3D_v2 sp tp))) = 2 * vx (Node3D_position_v2 sp) \<and>
   vy (hd (points (Edge3D_v2 sp tp))) = 2 * vy (Node3D_position_v2 sp) \<and>
   vx (last (points (Edge3D_v2 sp tp))) = 2 * vx (Node3D_position_v2 tp) \<and>
   vy (last (points (Edge3D_v2 sp tp))) = 2 * vy (Node3D_position_v2 tp) \<and>
   length (render3DEdges_v1 s) = length (edges s) \<and>
   length (render3DEdges_v2 s) = length (edges s) \<and>
   (\<forall>k < length (edges s). \<forall>n m.
      find (\<lambda>n. node_id n = source (edges s ! k)) (nodes s) = Some n \<and>
      find (\<lambda>n. node_id n = target (edges s ! k)) (nodes s) = Some m \<longrightarrow>
      render3DEdges_v1 s ! k = Edge3D_v1 (node_position n) (node_position m) \<and>
      render3DEdges_v2 s ! k = Edge3D_v2 (node_position n) (node_position m))"
proof -
  have p1: "hd (points (Edge3D_v1 sp tp)) = \<lparr>vx = px sp / 25, vy = - py sp / 25, vz = 0.005\<rparr>"
    "last (points (Edge3D_v1 sp tp)) = \<lparr>vx = px tp / 25, vy = - py tp / 25 + 0.5, vz = 0.005\<rparr>"
    by (simp_all add: Edge3D_v1_def startPoint_v1_def endPoint_v1_def)
  have p2: "hd (points (Edge3D_v2 sp tp)) = \<lparr>vx = px sp / 50, vy = - py sp / 50, vz = 0.005\<rparr>"
    "last (points (Edge3D_v2 sp tp)) = \<lparr>vx = px tp / 50, vy = - py tp / 50, vz = 0.005\<rparr>"
    by (simp_all add: Edge3D_v2_def startPoint_v2_def endPoint_v2_def)
  have d1: "vx (hd (points (Edge3D_v1 sp tp))) = 2 * vx (Node3D_position_v1 sp)"
    "vy (hd (points (Edge3D_v1 sp tp))) = 2 * vy (Node3D_position_v1 sp)"
    "vx (last (points (Edge3D_v1 sp tp))) = 2 * vx (Node3D_position_v1 tp)"
    "vy (last (points (Edge3D_v1 sp tp))) = 2 * vy (Node3D_position_v1 tp) + 0.5"
    by (simp_all add: p1 Node3D_position_v1_def)
  have d2: "vx (hd (points (Edge3D_v2 sp tp))) = 2 * vx (Node3D_position_v2 sp)"
    "vy (hd (points (Edge3D_v2 sp tp))) = 2 * vy (Node3D_position_v2 sp)"
    "vx (last (points (Edge3D_v2 sp tp))) = 2 * vx (Node3D_position_v2 tp)"
    "vy (last (points (Edge3D_v2 sp tp))) = 2 * vy (Node3D_position_v2 tp)"
    by (simp_all add: p2 Node3D_position_v2_def)
  have len: "length (render3DEdges_v1 s) = length (edges s)"
    "length (render3DEdges_v2 s) = length (edges s)"
    by (simp_all add: render3DEdges_v1_def render3DEdges_v2_def edgesWithPositions_def)
  have each: "\<forall>k < length (edges s). \<forall>n m.
      find (\<lambda>n. node_id n = source (edges s ! k)) (nodes s) = Some n \<and>
      find (\<lambda>n. node_id n = target (edges s ! k)) (nodes s) = Some m \<longrightarrow>
      render3DEdges_v1 s ! k = Edge3D_v1 (node_position n) (node_position m) \<and>
      render3DEdges_v2 s ! k = Edge3D_v2 (node_position n) (node_position m)"
    by (simp add: render3DEdges_v1_def render3DEdges_v2_def edgesWithPositions_def
        edgeWithPositions_def positionOr0_Some)
  from p1 p2 d1 d2 len each show ?thesis by blast
qed

text \<open>C4 for the first seed edge, whose endpoints are the first two seed nodes.\<close>

theorem edge_endpoints_witness:
  "(0::nat) < length (edges initialState) \<and>
   find (\<lambda>n. node_id n = source (edges initialState ! 0)) (nodes initialState) =
     Some (initialNodes ! 0) \<and>
   find (\<lambda>n. node_id n = target (edges initialState ! 0)) (nodes initialState) =
     Some (initialNodes ! 1) \<and>
   render3DEdges_v1 initialState ! 0 =
     Edge3D_v1 (node_position (initialNodes ! 0)) (node_position (initialNodes ! 1)) \<and>
   render3DEdges_v2 initialState ! 0 =
     Edge3D_v2 (node_position (initialNodes ! 0)) (node_position (initialNodes ! 1))"
proof -
  have a: "(0::nat) < length (edges initialState)"
    by (simp add: initialState_def initialEdges_def)
  have b: "find (\<lambda>n. node_id n = source (edges initialState ! 0)) (nodes initialState) =
      Some (initialNodes ! 0)"
    and c: "find (\<lambda>n. node_id n = target (edges initialState ! 0)) (nodes initialState) =
      Some (initialNodes ! 1)"
    by (simp_all add: initialState_def initialEdges_def initialNodes_def)
  from a b c edge_endpoints [of _ _ initialState]
  have "render3DEdges_v1 initialState ! 0 =
     Edge3D_v1 (node_position (initialNodes ! 0)) (node_position (initialNodes ! 1)) \<and>
   render3DEdges_v2 initialState ! 0 =
     Edge3D_v2 (node_position (initialNodes ! 0)) (node_position (initialNodes ! 1))"
    by blast
  with a b c show ?thesis by blast
qed

text \<open>
  Against C4 as stated: the first seed edge ends at node 2, which the first variant
  places at \<open>(4, -2, 0.005)\<close> while the edge ends at \<open>(8, -3.5, 0.005)\<close>; the second
  variant places it at \<open>(2, -1, 0)\<close> while the edge ends at \<open>(4, -2, 0.005)\<close>.
\<close>

theorem edge_endpoints_counterexample:
  "node_id (nodes initialState ! 1) = target (edges initialState ! 0) \<and>
   render3DNodes_v1 initialState ! 1 = \<lparr>vx = 4, vy = - 2, vz = 0.005\<rparr> \<and>
   last (points (render3DEdges_v1 initialState ! 0)) = \<lparr>vx = 8, vy = - 3.5, vz = 0.005\<rparr> \<and>
   last (points (render3DEdges_v1 initialState ! 0)) \<noteq> render3DNodes_v1 initialState ! 1 \<and>
   render3DNodes_v2 initialState ! 1 = \<lparr>vx = 2, vy = - 1, vz = 0\<rparr> \<and>
   last (points (render3DEdges_v2 initialState ! 0)) = \<lparr>vx = 4, vy = - 2, vz = 0.005\<rparr> \<and>
   last (points (render3DEdges_v2 initialState ! 0)) \<noteq> render3DNodes_v2 initialState ! 1"
  by (simp add: initialState_def initialNodes_def initialEdges_def
      render3DNodes_v1_def render3DNodes_v2_def render3DEdges_v1_def render3DEdges_v2_def
      edgesWithPositions_def edgeWithPositions_def positionOr0_def
      Node3D_position_v1_def Node3D_position_v2_def Edge3D_v1_def Edge3D_v2_def
      endPoint_v1_def endPoint_v2_def)

text \<open>
  Claim C6, as amended. \<open>onConnect\<close> checks no endpoint and signals no error: it
  replaces the edge list by the library's \<open>addEdge(connection, edges)\<close>, which does
  not see the nodes, and leaves the nodes and the selection as they are. With the
  library's \<open>addEdge\<close>, a connection whose endpoint ids are not empty and which repeats
  no edge of the store is appended, whether or not its endpoints name live nodes. For
  any function in the place of \<open>addEdge\<close>: if \<open>onConnect\<close> left the edges unchanged
  whenever an endpoint names no live node, that function would never add an edge.
\<close>

theorem onConnect_no_validation:
  "nodes (onConnect addE c s) = nodes s \<and>
   selectedNode (onConnect addE c s) = selectedNode s \<and>
   edges (onConnect addE c s) = addE c (edges s) \<and>
   (edges s = edges s' \<longrightarrow> edges (onConnect addE c s) = edges (onConnect addE c s')) \<and>
   (conn_source c \<noteq> [] \<and> conn_target c \<noteq> [] \<and>
    \<not> connectionExists (edgeOfConnection c) (edges s) \<longrightarrow>
      edges (onConnect addEdge c s) = edges s @ [edgeOfConnection c]) \<and>
   ((\<forall>c' t. conn_source c' \<notin> set (nodeIds t) \<or> conn_target c' \<notin> set (nodeIds t) \<longrightarrow>
            edges (onConnect addE c' t) = edges t) \<longrightarrow>
    (\<forall>c' es. addE c' es = es))"
proof -
  have frame: "nodes (onConnect addE c s) = nodes s"
    "selectedNode (onConnect addE c s) = selectedNode s"
    "edges (onConnect addE c s) = addE c (edges s)"
    by (simp_all add: onConnect_def)
  have indep: "edges s = edges s' \<longrightarrow>
      edges (onConnect addE c s) = edges (onConnect addE c s')"
    by (simp add: onConnect_def)
  have lib: "conn_source c \<noteq> [] \<and> conn_target c \<noteq> [] \<and>
      \<not> connectionExists (edgeOfConnection c) (edges s) \<longrightarrow>
      edges (onConnect addEdge c s) = edges s @ [edgeOfConnection c]"
    by (simp add: onConnect_def addEdge_def)
  have never: "(\<forall>c' t. conn_source c' \<notin> set (nodeIds t) \<or> conn_target c' \<notin> set (nodeIds t) \<longrightarrow>
            edges (onConnect addE c' t) = edges t) \<longrightarrow>
      (\<forall>c' es. addE c' es = es)"
  proof (intro impI allI)
    fix c' :: connection and es :: "edge list"
    assume rejects: "\<forall>c' t. conn_source c' \<notin> set (nodeIds t) \<or> conn_target c' \<notin> set (nodeIds t) \<longrightarrow>
        edges (onConnect addE c' t) = edges t"
    let ?t = "\<lparr>nodes = [], edges = es, selectedNode = None\<rparr>"
    have "conn_source c' \<notin> set (nodeIds ?t)" by (simp add: nodeIds_def)
    with rejects have "edges (onConnect addE c' ?t) = edges ?t" by blast
    then show "addE c' es = es" by (simp add: onConnect_def)
  qed
  from frame indep lib never show ?thesis by blast
qed

text \<open>
  C6 at the seed store: the connection from \<open>"nonexistent"\<close> to \<open>"2"\<close> is appended as
  the edge \<open>xy-edge__nonexistent-2\<close>.
\<close>

theorem onConnect_no_validation_witness:
  "conn_source \<lparr>conn_source = ''nonexistent'', conn_target = ''2'',
      conn_sourceHandle = None, conn_targetHandle = None\<rparr> \<noteq> [] \<and>
   conn_target \<lparr>conn_source = ''nonexistent'', conn_target = ''2'',
      conn_sourceHandle = None, conn_targetHandle = None\<rparr> \<noteq> [] \<and>
   \<not> connectionExists (edgeOfConnection \<lparr>conn_source = ''nonexistent'', conn_target = ''2'',
      conn_sourceHandle = None, conn_targetHandle = None\<rparr>) (edges initialState) \<and>
   edges (onConnect addEdge \<lparr>conn_source = ''nonexistent'', conn_target = ''2'',
      conn_sourceHandle = None, conn_targetHandle = None\<rparr> initialState) =
     edges initialState @
       [\<lparr>edge_id = ''xy-edge__nonexistent-2'', source = ''nonexistent'', target = ''2'',
         sourceHandle = None, targetHandle = None\<rparr>]"
proof -
  let ?c = "\<lparr>conn_source = ''nonexistent'', conn_target = ''2'',
      conn_sourceHandle = None, conn_targetHandle = None\<rparr>"
  have a: "conn_source ?c \<noteq> []" "conn_target ?c \<noteq> []" by simp_all
  have b: "\<not> connectionExists (edgeOfConnection ?c) (edges initialState)"
    by (simp add: connectionExists_def edgeOfConnection_def initialState_def initialEdges_def)
  have e: "edgeOfConnection ?c =
      \<lparr>edge_id = ''xy-edge__nonexistent-2'', source = ''nonexistent'', target = ''2'',
       sourceHandle = None, targetHandle = None\<rparr>"
    by (simp add: edgeOfConnection_def getEdgeId_def handleOrEmpty_def)
  from a b onConnect_no_validation [of _ ?c initialState]
  have "edges (onConnect addEdge ?c initialState) = edges initialState @ [edgeOfConnection ?c]"
    by blast
  with a b e show ?thesis by simp
qed

text \<open>
  Against C6 as stated: \<open>"nonexistent"\<close> names no node of the seed store, and connecting
  it to \<open>"2"\<close> changes the edge list, which then has three edges.
\<close>

theorem onConnect_counterexample:
  "''nonexistent'' \<notin> set (nodeIds initialState) \<and>
   edges (onConnect addEdge \<lparr>conn_source = ''nonexistent'', conn_target = ''2'',
      conn_sourceHandle = None, conn_targetHandle = None\<rparr> initialState) \<noteq>
     edges initialState \<and>
   length (edges (onConnect addEdge \<lparr>conn_source = ''nonexistent'', conn_target = ''2'',
      conn_sourceHandle = None, conn_targetHandle = None\<rparr> initialState)) = 3"
proof -
  have a: "''nonexistent'' \<notin> set (nodeIds initialState)"
    by (simp add: initial_ids)
  have b: "edges (onConnect addEdge \<lparr>conn_source = ''nonexistent'', conn_target = ''2'',
      conn_sourceHandle = None, conn_targetHandle = None\<rparr> initialState) =
     initialEdges @ [edgeOfConnection \<lparr>conn_source = ''nonexistent'', conn_target = ''2'',
      conn_sourceHandle = None, conn_targetHandle = None\<rparr>]"
    by (simp add: onConnect_def addEdge_def connectionExists_def
        edgeOfConnection_def initialState_def initialEdges_def)
  have c: "edges initialState = initialEdges" "length initialEdges = 2"
    by (simp_all add: initialState_def initialEdges_def)
  from a b c show ?thesis by simp
qed

end
